theory Spec2Isabelle
  imports Main "HOL-Library.AList"
begin

section \<open>JavaScript values\<close>

text \<open>
  The values that flow through \<^verbatim>\<open>src/frontend/src/App.js\<close>: JSON bodies of the
  server, error objects, history entries. An object is an association list from property
  names to values, in insertion order. Numbers are the integer-valued ones (durations in
  seconds). A string is the list of its code units, each below 256: a \<open>char\<close> stands
  for the code unit of that value, not for a byte of an encoding.
\<close>

datatype jsval =
    JUndefined
  | JNull
  | JBool bool
  | JNum int
  | JStr string
  | JArr "jsval list"
  | JObj "(string \<times> jsval) list"

type_synonym jsobj = "(string \<times> jsval) list"

text \<open>Truthiness, as tested by \<^verbatim>\<open>if (v)\<close>, \<^verbatim>\<open>!v\<close> and \<^verbatim>\<open>a || b\<close>.\<close>

fun truthy :: "jsval \<Rightarrow> bool" where
  "truthy JUndefined = False"
| "truthy JNull = False"
| "truthy (JBool b) = b"
| "truthy (JNum n) = (n \<noteq> 0)"
| "truthy (JStr s) = (s \<noteq> [])"
| "truthy (JArr xs) = True"
| "truthy (JObj al) = True"

text \<open>\<^verbatim>\<open>a || b\<close>: the left operand when it is truthy, the right one otherwise.\<close>

definition js_or :: "jsval \<Rightarrow> jsval \<Rightarrow> jsval" where
  "js_or a b = (if truthy a then a else b)"

definition nullish :: "jsval \<Rightarrow> bool" where
  "nullish v = (v = JUndefined \<or> v = JNull)"

text \<open>
  \<^verbatim>\<open>v.k\<close> for a \<open>v\<close> that is neither \<^verbatim>\<open>null\<close> nor \<^verbatim>\<open>undefined\<close>, and for the
  property names this program reads (\<^verbatim>\<open>success\<close>, \<^verbatim>\<open>error\<close>, \<^verbatim>\<open>data\<close>, \<^verbatim>\<open>title\<close>,
  \<^verbatim>\<open>detail\<close>, ...): an object yields the stored value or \<^verbatim>\<open>undefined\<close>, a primitive
  or an array has none of these names and yields \<^verbatim>\<open>undefined\<close>.
\<close>

fun member :: "jsval \<Rightarrow> string \<Rightarrow> jsval" where
  "member (JObj al) k = (case map_of al k of Some x \<Rightarrow> x | None \<Rightarrow> JUndefined)"
| "member v k = JUndefined"

text \<open>
  Reading a property of \<^verbatim>\<open>null\<close> or \<^verbatim>\<open>undefined\<close> throws a TypeError. The error
  object has a \<^verbatim>\<open>message\<close> and no \<^verbatim>\<open>response\<close>; the wording of the message is the
  engine's (here V8's).
\<close>

definition type_error :: "jsval \<Rightarrow> string \<Rightarrow> jsobj" where
  "type_error v k =
     [(''message'', JStr (''Cannot read properties of ''
        @ (if v = JNull then ''null'' else ''undefined'')
        @ '' (reading '' @ [CHR 0x27] @ k @ [CHR 0x27] @ '')''))]"

text \<open>\<^verbatim>\<open>v.k\<close> in general: \<open>Inl\<close> is the thrown TypeError.\<close>

definition get_prop :: "jsval \<Rightarrow> string \<Rightarrow> jsobj + jsval" where
  "get_prop v k = (if nullish v then Inl (type_error v k) else Inr (member v k))"

text \<open>\<^verbatim>\<open>v?.k\<close>: \<^verbatim>\<open>undefined\<close> when \<open>v\<close> is \<^verbatim>\<open>null\<close> or \<^verbatim>\<open>undefined\<close>.\<close>

definition opt_prop :: "jsval \<Rightarrow> string \<Rightarrow> jsval" where
  "opt_prop v k = (if nullish v then JUndefined else member v k)"

section \<open>Strings\<close>

text \<open>
  \<^verbatim>\<open>String.prototype.trim\<close> removes white space and line terminators from both ends.
  Among the code units below 256 these are tab, line feed, vertical tab, form feed,
  carriage return, space and no-break space.
\<close>

definition js_space :: "char \<Rightarrow> bool" where
  "js_space c = (c = CHR 0x09 \<or> c = CHR 0x0A \<or> c = CHR 0x0B \<or> c = CHR 0x0C
                 \<or> c = CHR 0x0D \<or> c = CHR 0x20 \<or> c = CHR 0xA0)"

definition trim :: "string \<Rightarrow> string" where
  "trim s = rev (dropWhile js_space (rev (dropWhile js_space s)))"

text \<open>\<^verbatim>\<open>s.includes(p)\<close>: \<open>p\<close> occurs in \<open>s\<close> as a contiguous substring.\<close>

fun js_includes :: "string \<Rightarrow> string \<Rightarrow> bool" where
  "js_includes [] p = (p = [])"
| "js_includes (c # cs) p = (take (length p) (c # cs) = p \<or> js_includes cs p)"

section \<open>Application state and its environment\<close>

text \<open>The \<^verbatim>\<open>{ type, text }\<close> object held by the \<^verbatim>\<open>message\<close> state variable.\<close>

record msg =
  msg_type :: string
  msg_text :: jsval

text \<open>
  What the handlers do to the outside world, in order: requests through axios, calls of
  localforage, \<^verbatim>\<open>console.error\<close> and \<^verbatim>\<open>window.open\<close>. \<open>WindowOpen base v target\<close>
  stands for \<^verbatim>\<open>window.open(`${base}${v}`, target)\<close>.
\<close>

datatype effect =
    HttpPost string jsval
  | SetItem string "jsobj list"
  | RemoveItem string
  | ConsoleError string jsval
  | WindowOpen string jsval string

text \<open>
  The eight \<^verbatim>\<open>useState\<close> variables of \<^verbatim>\<open>App\<close>, followed by the environment the
  component acts on: the record stored by localforage under \<^verbatim>\<open>downloadHistory\<close>, the
  pending debounce timer (milliseconds left, and the \<^verbatim>\<open>url\<close> its callback closed over),
  and the effects performed so far.
\<close>

record app =
  url :: string
  quality :: string
  loading :: bool
  loadingInfo :: bool
  message :: msg
  videoInfo :: jsval
  downloadHistory :: "jsobj list"
  isOnline :: bool
  store :: "jsobj list option"
  timer :: "(nat \<times> string) option"
  trace :: "effect list"

text \<open>How an awaited promise settles: an axios request, a localforage call.\<close>

datatype http_result =
    Response jsval        \<comment> \<open>fulfilled; the value is \<^verbatim>\<open>response.data\<close>\<close>
  | NetError jsobj        \<comment> \<open>rejected with an error object\<close>

datatype io_result =
    Fulfilled
  | RejectedWith jsval

text \<open>How an async function of the component itself settles.\<close>

datatype outcome =
    Returned jsval
  | Thrown jsobj

text \<open>
  \<^verbatim>\<open>API_URL\<close>, at its default: the value used when the build sets no
  \<^verbatim>\<open>REACT_APP_API_URL\<close>.
\<close>

definition API_URL :: string where
  "API_URL = ''http://localhost:8000''"

text \<open>
  The component when it is mounted: the initial values of the state variables
  (\<open>online\<close> is \<^verbatim>\<open>navigator.onLine\<close>), the history \<open>h\<close> found in the store and
  loaded by \<^verbatim>\<open>loadHistory\<close> (an empty \<open>h\<close> stands for a store without the record),
  and the timer set by the first run of the debounce effect.
\<close>

definition mounted :: "bool \<Rightarrow> jsobj list \<Rightarrow> app" where
  "mounted online h =
     \<lparr>url = [], quality = ''best'', loading = False, loadingInfo = False,
      message = \<lparr>msg_type = [], msg_text = JStr []\<rparr>, videoInfo = JNull,
      downloadHistory = h, isOnline = online,
      store = (if h = [] then None else Some h), timer = Some (500, []), trace = []\<rparr>"

definition perform :: "effect \<Rightarrow> app \<Rightarrow> app" where
  "perform e st = st\<lparr>trace := trace st @ [e]\<rparr>"

definition setMessage :: "string \<Rightarrow> jsval \<Rightarrow> app \<Rightarrow> app" where
  "setMessage ty tx st = st\<lparr>message := \<lparr>msg_type = ty, msg_text = tx\<rparr>\<rparr>"

text \<open>
  \<^verbatim>\<open>setUrl(v)\<close>. React skips the render when the value is the same. Otherwise the effect
  that depends on \<^verbatim>\<open>url\<close> runs again: its cleanup clears the pending timer and a new
  timer of 500 ms is set, whose callback closes over the new \<^verbatim>\<open>url\<close>.
\<close>

definition setUrl :: "string \<Rightarrow> app \<Rightarrow> app" where
  "setUrl v st = (if v = url st then st else st\<lparr>url := v, timer := Some (500, v)\<rparr>)"

section \<open>History\<close>

text \<open>
  The list built in \<^verbatim>\<open>saveToHistory\<close>:
  \<^verbatim>\<open>[{ ...item, downloadedAt: new Date().toISOString() }, ...downloadHistory].slice(0, 20)\<close>.
  Spreading \<open>item\<close> and then writing \<^verbatim>\<open>downloadedAt\<close> replaces the value of that key when
  \<open>item\<close> has it and adds the key at the end otherwise.
\<close>

definition stamp :: "jsobj \<Rightarrow> string \<Rightarrow> jsobj" where
  "stamp item now = AList.update ''downloadedAt'' (JStr now) item"

definition newHistory :: "jsobj \<Rightarrow> string \<Rightarrow> jsobj list \<Rightarrow> jsobj list" where
  "newHistory item now h = take 20 (stamp item now # h)"

text \<open>
  \<^verbatim>\<open>saveToHistory(item)\<close>, with the clock reading \<open>now\<close> and the way
  \<^verbatim>\<open>localforage.setItem\<close> settles as \<open>wr\<close>. A rejected write skips
  \<^verbatim>\<open>setDownloadHistory\<close> and is logged; the function returns \<^verbatim>\<open>undefined\<close> either way.
\<close>

definition saveToHistory :: "jsobj \<Rightarrow> string \<Rightarrow> io_result \<Rightarrow> app \<Rightarrow> outcome \<times> app" where
  "saveToHistory item now wr st =
     (let nh = newHistory item now (downloadHistory st);
          st1 = perform (SetItem ''downloadHistory'' nh) st
      in case wr of
           Fulfilled \<Rightarrow> (Returned JUndefined, st1\<lparr>store := Some nh, downloadHistory := nh\<rparr>)
         | RejectedWith e \<Rightarrow>
             (Returned JUndefined, perform (ConsoleError ''Failed to save history:'' e) st1))"

text \<open>
  \<^verbatim>\<open>clearHistory()\<close>, with the way \<^verbatim>\<open>localforage.removeItem\<close> settles as \<open>wr\<close>.
\<close>

definition clearHistory :: "io_result \<Rightarrow> app \<Rightarrow> outcome \<times> app" where
  "clearHistory wr st =
     (let st1 = perform (RemoveItem ''downloadHistory'') st
      in case wr of
           Fulfilled \<Rightarrow>
             (Returned JUndefined,
              setMessage ''success'' (JStr ''History cleared'')
                (st1\<lparr>store := None, downloadHistory := []\<rparr>))
         | RejectedWith e \<Rightarrow>
             (Returned JUndefined, perform (ConsoleError ''Failed to clear history:'' e) st1))"

text \<open>A run of \<^verbatim>\<open>saveToHistory\<close> calls, one after the other.\<close>

fun appends :: "(jsobj \<times> string \<times> io_result) list \<Rightarrow> app \<Rightarrow> app" where
  "appends [] st = st"
| "appends ((item, now, wr) # rest) st = appends rest (snd (saveToHistory item now wr st))"

section \<open>Requests\<close>

text \<open>
  The text shown after a rejected request or an exception in the \<^verbatim>\<open>try\<close> block:
  \<^verbatim>\<open>error.response?.data?.detail || error.message || fallback\<close>.
\<close>

definition error_detail :: "jsobj \<Rightarrow> jsval" where
  "error_detail err = opt_prop (opt_prop (member (JObj err) ''response'') ''data'') ''detail''"

definition catch_text :: "jsobj \<Rightarrow> string \<Rightarrow> jsval" where
  "catch_text err fallback =
     js_or (js_or (error_detail err) (member (JObj err) ''message'')) (JStr fallback)"

text \<open>
  \<^verbatim>\<open>getVideoInfo\<close> up to its \<^verbatim>\<open>await\<close>, for the \<^verbatim>\<open>url\<close> the callback closed over:
  nothing at all for a blank \<open>u\<close>, otherwise the three state updates and the request.
\<close>

definition getVideoInfo_start :: "string \<Rightarrow> app \<Rightarrow> app" where
  "getVideoInfo_start u st =
     (if trim u = [] then st
      else perform (HttpPost (API_URL @ ''/api/video-info'') (JObj [(''url'', JStr (trim u))]))
             ((setMessage [] (JStr []) (st\<lparr>loadingInfo := True\<rparr>))\<lparr>videoInfo := JNull\<rparr>))"

text \<open>
  \<^verbatim>\<open>getVideoInfo\<close> from the moment its request settles: the rest of the \<^verbatim>\<open>try\<close>
  block, the \<^verbatim>\<open>catch\<close> and the \<^verbatim>\<open>finally\<close>. It reads the response only, and writes
  to whatever the state is by then.
\<close>

definition getVideoInfo_finish :: "http_result \<Rightarrow> app \<Rightarrow> app" where
  "getVideoInfo_finish r st =
     (let failed = (\<lambda>err. setMessage ''error'' (catch_text err ''Failed to connect to server'') st);
          st1 = (case r of
                   Response d \<Rightarrow>
                     (case get_prop d ''success'' of
                        Inl err \<Rightarrow> failed err
                      | Inr s \<Rightarrow>
                          if truthy s then st\<lparr>videoInfo := member d ''data''\<rparr>
                          else setMessage ''error''
                                 (js_or (member d ''error'') (JStr ''Failed to get video info'')) st)
                 | NetError err \<Rightarrow> failed err)
      in st1\<lparr>loadingInfo := False\<rparr>)"

text \<open>\<^verbatim>\<open>getVideoInfo()\<close> run to completion with nothing in between.\<close>

definition getVideoInfo :: "http_result \<Rightarrow> app \<Rightarrow> app" where
  "getVideoInfo r st =
     (if trim (url st) = [] then st
      else getVideoInfo_finish r (getVideoInfo_start (url st) st))"

text \<open>
  The object that \<^verbatim>\<open>handleDownload\<close> hands to \<^verbatim>\<open>saveToHistory\<close>, from the
  response body \<open>d\<close> and the state of the render in which the handler was called.
\<close>

definition download_item :: "jsval \<Rightarrow> app \<Rightarrow> jsobj" where
  "download_item d st =
     [(''url'', JStr (trim (url st))),
      (''title'', member d ''title''),
      (''filename'', member d ''filename''),
      (''duration'', member d ''duration''),
      (''quality'', JStr (quality st)),
      (''thumbnail'', opt_prop (videoInfo st) ''thumbnail'')]"

text \<open>
  \<^verbatim>\<open>handleDownload()\<close> run to completion: \<open>r\<close> is how the request settles, \<open>wr\<close> how
  the write of the history settles, \<open>now\<close> the clock reading. The values of \<^verbatim>\<open>url\<close>,
  \<^verbatim>\<open>quality\<close>, \<^verbatim>\<open>videoInfo\<close> and \<^verbatim>\<open>downloadHistory\<close> are those of the render in
  which the handler was called.
\<close>

definition handleDownload :: "http_result \<Rightarrow> io_result \<Rightarrow> string \<Rightarrow> app \<Rightarrow> app" where
  "handleDownload r wr now st =
     (if trim (url st) = [] then setMessage ''error'' (JStr ''Please enter a video URL'') st
      else if \<not> isOnline st then
        setMessage ''error''
          (JStr ''You are offline. Please connect to the internet to download.'') st
      else
        let st1 = perform (HttpPost (API_URL @ ''/api/download'')
                     (JObj [(''url'', JStr (trim (url st))), (''quality'', JStr (quality st))]))
                    (setMessage [] (JStr []) (st\<lparr>loading := True\<rparr>));
            failed = (\<lambda>err s. setMessage ''error'' (catch_text err ''Failed to download video'') s);
            st2 = (case r of
                     Response d \<Rightarrow>
                       (case get_prop d ''success'' of
                          Inl err \<Rightarrow> failed err st1
                        | Inr s \<Rightarrow>
                            if truthy s then
                              (let st3 = perform (WindowOpen API_URL (member d ''download_url'')
                                                    ''_blank'') st1;
                                   item = download_item d st
                               in case saveToHistory item now wr st3 of
                                    (Thrown e, st4) \<Rightarrow> failed e st4
                                  | (Returned v, st4) \<Rightarrow>
                                      (setUrl []
                                         (setMessage ''success''
                                            (JStr ''Download started! Check your downloads folder.'')
                                            st4))\<lparr>videoInfo := JNull\<rparr>)
                            else setMessage ''error''
                                   (js_or (member d ''error'') (JStr ''Download failed'')) st1)
                   | NetError err \<Rightarrow> failed err st1)
        in st2\<lparr>loading := False\<rparr>)"

section \<open>Debounce\<close>

text \<open>
  \<open>d\<close> milliseconds pass without an event. A pending timer with at most \<open>d\<close>
  milliseconds left fires: its callback tests the \<^verbatim>\<open>url\<close> it closed over with
  \<^verbatim>\<open>url.trim() && url.includes('http')\<close> and calls \<^verbatim>\<open>getVideoInfo\<close>.
\<close>

definition elapse :: "nat \<Rightarrow> app \<Rightarrow> app" where
  "elapse d st =
     (case timer st of
        None \<Rightarrow> st
      | Some (left, u) \<Rightarrow>
          if left \<le> d then
            (if trim u \<noteq> [] \<and> js_includes u ''http''
             then getVideoInfo_start u (st\<lparr>timer := None\<rparr>)
             else st\<lparr>timer := None\<rparr>)
          else st\<lparr>timer := Some (left - d, u)\<rparr>)"

text \<open>
  The user edits the input: each pair is the new value given to \<^verbatim>\<open>setUrl\<close> and the
  time that passes before the next event.
\<close>

fun typing :: "(string \<times> nat) list \<Rightarrow> app \<Rightarrow> app" where
  "typing [] st = st"
| "typing ((v, d) # rest) st = typing rest (elapse d (setUrl v st))"

text \<open>Every value of the run differs from the one before it, the first from \<open>u\<close>.\<close>

fun changes :: "string \<Rightarrow> string list \<Rightarrow> bool" where
  "changes u [] = True"
| "changes u (v # vs) = (v \<noteq> u \<and> changes v vs)"

section \<open>Example inputs\<close>

text \<open>A history that is full: twenty entries, the newest first.\<close>

definition full_log :: "jsobj list" where
  "full_log = map (\<lambda>n. [(''url'', JStr ''https://example.com/old''), (''duration'', JNum (int n))])
                  [0..<20]"

definition cat_item :: jsobj where
  "cat_item = [(''url'', JStr ''https://example.com/v1''), (''title'', JStr ''Cat video''),
               (''quality'', JStr ''high'')]"

text \<open>
  The user has pasted a URL, chosen \<^verbatim>\<open>high\<close> and seen the preview; the server then
  accepts the download, or refuses it.
\<close>

definition cat_state :: app where
  "cat_state = (mounted True [])
     \<lparr>url := ''https://example.com/v1'', quality := ''high'',
      videoInfo := JObj [(''title'', JStr ''Cat video''),
                         (''thumbnail'', JStr ''https://example.com/t.jpg'')],
      timer := None\<rparr>"

definition cat_response :: jsval where
  "cat_response = JObj [(''success'', JBool True), (''download_url'', JStr ''/downloads/cat.mp4''),
                        (''title'', JStr ''Cat video''), (''filename'', JStr ''cat.mp4''),
                        (''duration'', JNum 12)]"

definition refusal :: jsval where
  "refusal = JObj [(''success'', JBool False), (''error'', JStr ''Unsupported URL'')]"

text \<open>The input holds three spaces.\<close>

definition blank_state :: app where
  "blank_state = (mounted True [])\<lparr>url := ''   '', timer := Some (500, ''   '')\<rparr>"

text \<open>The browser is offline and the input is empty.\<close>

definition offline_state :: app where
  "offline_state = mounted False []"

text \<open>
  Two ways in which axios rejects: no response at all, and a response with status 500
  whose body has neither \<^verbatim>\<open>detail\<close> nor \<^verbatim>\<open>error\<close>.
\<close>

definition net_down :: jsobj where
  "net_down = [(''message'', JStr ''Network Error'')]"

definition server_500 :: jsobj where
  "server_500 = [(''message'', JStr ''Request failed with status code 500''),
                 (''response'', JObj [(''status'', JNum 500), (''data'', JObj [])])]"

text \<open>A rejection with status 422 whose body carries a \<^verbatim>\<open>detail\<close>.\<close>

definition server_422 :: jsobj where
  "server_422 = [(''message'', JStr ''Request failed with status code 422''),
                 (''response'', JObj [(''status'', JNum 422),
                    (''data'', JObj [(''detail'', JStr ''Invalid URL'')])])]"

text \<open>The component with one entry in its history, in memory and in the store.\<close>

definition one_entry :: app where
  "one_entry = mounted True [stamp cat_item ''2024-05-01T10:00:00.000Z'']"

text \<open>
  Two previews are in flight: the user entered a first URL and paused, then a second one
  and paused again, and neither response has arrived.
\<close>

definition two_fetches :: app where
  "two_fetches = typing [(''http://a.example/1'', 600), (''http://a.example/2'', 600)]
                   (mounted True [])"

definition first_info :: jsval where
  "first_info = JObj [(''success'', JBool True), (''data'', JObj [(''title'', JStr ''First video'')])]"

definition second_info :: jsval where
  "second_info = JObj [(''success'', JBool True), (''data'', JObj [(''title'', JStr ''Second video'')])]"

section \<open>The history is bounded\<close>

lemma length_newHistory: "length (newHistory item now h) \<le> 20"
  by (simp add: newHistory_def)

lemma newHistory_full:
  "length h = 20 \<Longrightarrow> newHistory item now h = stamp item now # butlast h"
  by (simp add: newHistory_def butlast_conv_take)

lemma saveToHistory_fulfilled:
  "downloadHistory (snd (saveToHistory item now Fulfilled st)) =
     newHistory item now (downloadHistory st)"
  by (simp add: saveToHistory_def Let_def perform_def)

lemma saveToHistory_rejected:
  "downloadHistory (snd (saveToHistory item now (RejectedWith e) st)) = downloadHistory st"
  by (simp add: saveToHistory_def Let_def perform_def)

lemma saveToHistory_bounded:
  "length (downloadHistory st) \<le> 20 \<Longrightarrow>
   length (downloadHistory (snd (saveToHistory item now wr st))) \<le> 20"
  by (cases wr) (simp_all add: saveToHistory_fulfilled saveToHistory_rejected length_newHistory)

lemma appends_bounded:
  "length (downloadHistory st) \<le> 20 \<Longrightarrow> length (downloadHistory (appends ops st)) \<le> 20"
proof (induction ops arbitrary: st)
  case Nil
  then show ?case by simp
next
  case (Cons a ops)
  obtain item now wr where a: "a = (item, now, wr)"
    by (cases a) auto
  from Cons.prems have "length (downloadHistory (snd (saveToHistory item now wr st))) \<le> 20"
    by (rule saveToHistory_bounded)
  then show ?case
    using Cons.IH by (simp add: a)
qed

lemma length_full_log: "length full_log = 20"
  by (simp add: full_log_def)

text \<open>
  Claim C1. A call of \<^verbatim>\<open>saveToHistory\<close> whose write is fulfilled leaves at most 20
  entries in the in-memory log, whatever the log was. From a log of at most 20 entries,
  the log has at most 20 entries after each call of any run of calls, however the writes
  settle. On a log of exactly 20 entries the call puts the stamped entry in front of the
  first 19 old entries, in their order: the one entry that is gone is the last (oldest)
  one. A call whose write is rejected leaves the log as it was.
\<close>

theorem history_capacity:
  "length (downloadHistory (snd (saveToHistory item now Fulfilled st))) \<le> 20
   \<and> (length (downloadHistory st) \<le> 20 \<longrightarrow>
        (\<forall>n. length (downloadHistory (appends (take n ops) st)) \<le> 20))
   \<and> (length (downloadHistory st) = 20 \<longrightarrow>
        downloadHistory (snd (saveToHistory item now Fulfilled st)) =
          stamp item now # butlast (downloadHistory st)
        \<and> downloadHistory st = butlast (downloadHistory st) @ [last (downloadHistory st)])
   \<and> downloadHistory (snd (saveToHistory item now (RejectedWith e) st)) = downloadHistory st"
proof (intro conjI impI allI)
  show "length (downloadHistory (snd (saveToHistory item now Fulfilled st))) \<le> 20"
    by (simp add: saveToHistory_fulfilled length_newHistory)
next
  fix n
  assume "length (downloadHistory st) \<le> 20"
  then show "length (downloadHistory (appends (take n ops) st)) \<le> 20"
    by (rule appends_bounded)
next
  assume full: "length (downloadHistory st) = 20"
  then show "downloadHistory (snd (saveToHistory item now Fulfilled st)) =
      stamp item now # butlast (downloadHistory st)"
    by (simp add: saveToHistory_fulfilled newHistory_full)
  from full have "downloadHistory st \<noteq> []"
    by auto
  then show "downloadHistory st = butlast (downloadHistory st) @ [last (downloadHistory st)]"
    by simp
next
  show "downloadHistory (snd (saveToHistory item now (RejectedWith e) st)) = downloadHistory st"
    by (rule saveToHistory_rejected)
qed

theorem history_capacity_witness:
  "length (downloadHistory (mounted True full_log)) \<le> 20
   \<and> length (downloadHistory (mounted True full_log)) = 20
   \<and> length (downloadHistory
        (appends [(cat_item, ''2024-05-01T10:00:00.000Z'', Fulfilled)] (mounted True full_log))) \<le> 20
   \<and> downloadHistory (snd (saveToHistory cat_item ''2024-05-01T10:00:00.000Z'' Fulfilled
        (mounted True full_log))) =
       stamp cat_item ''2024-05-01T10:00:00.000Z'' # butlast full_log"
proof -
  have full: "length (downloadHistory (mounted True full_log)) = 20"
    by (simp add: mounted_def length_full_log)
  have log: "downloadHistory (mounted True full_log) = full_log"
    by (simp add: mounted_def)
  from history_capacity [of cat_item "''2024-05-01T10:00:00.000Z''" "mounted True full_log"
      "[(cat_item, ''2024-05-01T10:00:00.000Z'', Fulfilled)]" JNull] full
  have "(\<forall>n. length (downloadHistory (appends
            (take n [(cat_item, ''2024-05-01T10:00:00.000Z'', Fulfilled)])
            (mounted True full_log))) \<le> 20)"
    and last: "downloadHistory (snd (saveToHistory cat_item ''2024-05-01T10:00:00.000Z'' Fulfilled
            (mounted True full_log))) =
          stamp cat_item ''2024-05-01T10:00:00.000Z'' # butlast (downloadHistory (mounted True full_log))"
    by simp_all
  then have "length (downloadHistory (appends
            (take 1 [(cat_item, ''2024-05-01T10:00:00.000Z'', Fulfilled)])
            (mounted True full_log))) \<le> 20"
    by blast
  then have "length (downloadHistory (appends [(cat_item, ''2024-05-01T10:00:00.000Z'', Fulfilled)]
            (mounted True full_log))) \<le> 20"
    by simp
  with full last log show ?thesis
    by simp
qed

section \<open>Downloads\<close>

lemma truthy_member_not_nullish: "truthy (member d k) \<Longrightarrow> \<not> nullish d"
  by (cases d) (auto simp: nullish_def)

lemma handleDownload_success:
  assumes "trim (url st) \<noteq> []" and "isOnline st" and "truthy (member d ''success'')"
  shows "handleDownload (Response d) wr now st =
     (setUrl []
        (setMessage ''success'' (JStr ''Download started! Check your downloads folder.'')
          (snd (saveToHistory (download_item d st) now wr
             (perform (WindowOpen API_URL (member d ''download_url'') ''_blank'')
               (perform (HttpPost (API_URL @ ''/api/download'')
                     (JObj [(''url'', JStr (trim (url st))), (''quality'', JStr (quality st))]))
                    (setMessage [] (JStr []) (st\<lparr>loading := True\<rparr>))))))))
     \<lparr>videoInfo := JNull, loading := False\<rparr>"
  using assms truthy_member_not_nullish [OF assms(3)]
  by (cases wr) (simp_all add: handleDownload_def Let_def get_prop_def saveToHistory_def)

lemma handleDownload_success_state:
  assumes "trim (url st) \<noteq> []" and "isOnline st" and "truthy (member d ''success'')"
  shows "url (handleDownload (Response d) wr now st) = []"
    and "videoInfo (handleDownload (Response d) wr now st) = JNull"
    and "downloadHistory (handleDownload (Response d) Fulfilled now st) =
           newHistory (download_item d st) now (downloadHistory st)"
    and "store (handleDownload (Response d) Fulfilled now st) =
           Some (newHistory (download_item d st) now (downloadHistory st))"
    and "SetItem ''downloadHistory'' (newHistory (download_item d st) now (downloadHistory st))
           \<in> set (trace (handleDownload (Response d) wr now st))"
      apply (simp_all add: handleDownload_success [OF assms])
      apply (simp_all add: setUrl_def setMessage_def saveToHistory_def Let_def perform_def
                      split: io_result.split)
  done

lemma handleDownload_rejected:
  assumes "trim (url st) \<noteq> []" and "isOnline st"
  shows "handleDownload (NetError err) wr now st =
     st\<lparr>loading := False,
        message := \<lparr>msg_type = ''error'',
                    msg_text = catch_text err ''Failed to download video''\<rparr>,
        trace := trace st @ [HttpPost (API_URL @ ''/api/download'')
                   (JObj [(''url'', JStr (trim (url st))), (''quality'', JStr (quality st))])]\<rparr>"
  using assms
  by (simp add: handleDownload_def Let_def setMessage_def perform_def)

lemma handleDownload_refused:
  assumes "trim (url st) \<noteq> []" and "isOnline st"
    and "\<not> truthy (member d ''success'')" and "\<not> nullish d"
  shows "handleDownload (Response d) wr now st =
     st\<lparr>loading := False,
        message := \<lparr>msg_type = ''error'',
                    msg_text = js_or (member d ''error'') (JStr ''Download failed'')\<rparr>,
        trace := trace st @ [HttpPost (API_URL @ ''/api/download'')
                   (JObj [(''url'', JStr (trim (url st))), (''quality'', JStr (quality st))])]\<rparr>"
  using assms
  by (simp add: handleDownload_def Let_def get_prop_def setMessage_def perform_def)

lemma handleDownload_no_body:
  assumes "trim (url st) \<noteq> []" and "isOnline st" and "nullish d"
  shows "handleDownload (Response d) wr now st =
     st\<lparr>loading := False,
        message := \<lparr>msg_type = ''error'',
                    msg_text = catch_text (type_error d ''success'') ''Failed to download video''\<rparr>,
        trace := trace st @ [HttpPost (API_URL @ ''/api/download'')
                   (JObj [(''url'', JStr (trim (url st))), (''quality'', JStr (quality st))])]\<rparr>"
  using assms
  by (simp add: handleDownload_def Let_def get_prop_def setMessage_def perform_def)

lemma handleDownload_blank:
  "trim (url st) = [] \<Longrightarrow>
   handleDownload r wr now st =
     st\<lparr>message := \<lparr>msg_type = ''error'', msg_text = JStr ''Please enter a video URL''\<rparr>\<rparr>"
  by (simp add: handleDownload_def setMessage_def)

lemma handleDownload_offline:
  "trim (url st) \<noteq> [] \<Longrightarrow> \<not> isOnline st \<Longrightarrow>
   handleDownload r wr now st =
     st\<lparr>message := \<lparr>msg_type = ''error'',
          msg_text = JStr ''You are offline. Please connect to the internet to download.''\<rparr>\<rparr>"
  by (simp add: handleDownload_def setMessage_def)

lemma head_fields:
  "newHistory item now h = stamp item now # take 19 h"
  "member (JObj (stamp (download_item d st) now)) ''url'' = JStr (trim (url st))"
  "member (JObj (stamp (download_item d st) now)) ''title'' = member d ''title''"
  "member (JObj (stamp (download_item d st) now)) ''quality'' = JStr (quality st)"
  "member (JObj (stamp item now)) ''downloadedAt'' = JStr now"
  by (simp_all add: newHistory_def stamp_def update_conv' download_item_def)

lemma cat_state_admitted:
  "trim (url cat_state) \<noteq> []" "isOnline cat_state"
  by (simp_all add: cat_state_def mounted_def trim_def js_space_def)

text \<open>
  Claim C2. When the URL is not blank, the browser is online and the response body has a
  truthy \<^verbatim>\<open>success\<close>, the list that \<^verbatim>\<open>handleDownload\<close> writes to the store, however
  the write settles, and installs as the in-memory log once the write is fulfilled, starts
  with the stamped entry: its \<^verbatim>\<open>url\<close> is the trimmed input, its \<^verbatim>\<open>title\<close> the
  \<^verbatim>\<open>title\<close> of the response, its \<^verbatim>\<open>quality\<close> the selected quality, and its
  \<^verbatim>\<open>downloadedAt\<close> the clock reading taken by \<^verbatim>\<open>saveToHistory\<close>. Stamping sets
  \<^verbatim>\<open>downloadedAt\<close> to the clock reading for every item, also one that had the key.
\<close>

theorem download_history_head:
  assumes "trim (url st) \<noteq> []" and "isOnline st" and "truthy (member d ''success'')"
  shows "downloadHistory (handleDownload (Response d) Fulfilled now st) =
           stamp (download_item d st) now # take 19 (downloadHistory st)
       \<and> store (handleDownload (Response d) Fulfilled now st) =
           Some (stamp (download_item d st) now # take 19 (downloadHistory st))
       \<and> (\<forall>wr. SetItem ''downloadHistory''
                 (stamp (download_item d st) now # take 19 (downloadHistory st))
               \<in> set (trace (handleDownload (Response d) wr now st)))
       \<and> member (JObj (stamp (download_item d st) now)) ''url'' = JStr (trim (url st))
       \<and> member (JObj (stamp (download_item d st) now)) ''title'' = member d ''title''
       \<and> member (JObj (stamp (download_item d st) now)) ''quality'' = JStr (quality st)
       \<and> (\<forall>item. member (JObj (stamp item now)) ''downloadedAt'' = JStr now)"
  using handleDownload_success_state(3,4,5) [OF assms]
  by (simp add: head_fields del: member.simps)

theorem download_history_head_witness:
  "trim (url cat_state) \<noteq> [] \<and> isOnline cat_state \<and> truthy (member cat_response ''success'')
   \<and> downloadHistory
        (handleDownload (Response cat_response) Fulfilled ''2024-05-01T10:00:00.000Z'' cat_state) =
       [[(''url'', JStr ''https://example.com/v1''), (''title'', JStr ''Cat video''),
         (''filename'', JStr ''cat.mp4''), (''duration'', JNum 12), (''quality'', JStr ''high''),
         (''thumbnail'', JStr ''https://example.com/t.jpg''),
         (''downloadedAt'', JStr ''2024-05-01T10:00:00.000Z'')]]"
proof -
  have ok: "truthy (member cat_response ''success'')"
    by (simp add: cat_response_def)
  have "downloadHistory
          (handleDownload (Response cat_response) Fulfilled ''2024-05-01T10:00:00.000Z'' cat_state) =
        stamp (download_item cat_response cat_state) ''2024-05-01T10:00:00.000Z''
          # take 19 (downloadHistory cat_state)"
    using download_history_head [OF cat_state_admitted ok] by blast
  also have "\<dots> = [[(''url'', JStr ''https://example.com/v1''), (''title'', JStr ''Cat video''),
         (''filename'', JStr ''cat.mp4''), (''duration'', JNum 12), (''quality'', JStr ''high''),
         (''thumbnail'', JStr ''https://example.com/t.jpg''),
         (''downloadedAt'', JStr ''2024-05-01T10:00:00.000Z'')]]"
    by (simp add: stamp_def download_item_def cat_response_def cat_state_def mounted_def
                  trim_def js_space_def opt_prop_def nullish_def)
  finally show ?thesis
    using cat_state_admitted ok by simp
qed

section \<open>Requests that are refused before they are sent\<close>

text \<open>
  Claim C3, as amended. For every input whose trimmed form is empty, \<^verbatim>\<open>getVideoInfo\<close>
  returns at once and leaves everything as it was: no request is sent, and no message is
  set either.
\<close>

theorem fetch_blank_silent:
  "trim (url st) = [] \<Longrightarrow> getVideoInfo r st = st \<and> getVideoInfo_start (url st) st = st"
  by (simp add: getVideoInfo_def getVideoInfo_start_def)

theorem fetch_blank_silent_witness:
  "trim (url blank_state) = []
   \<and> getVideoInfo (NetError []) blank_state = blank_state
   \<and> getVideoInfo_start (url blank_state) blank_state = blank_state"
proof -
  have blank: "trim (url blank_state) = []"
    by (simp add: blank_state_def trim_def js_space_def)
  from fetch_blank_silent [OF blank, of "NetError []"] blank show ?thesis
    by simp
qed

text \<open>
  The claim as stated fails for the input of three spaces: after \<^verbatim>\<open>getVideoInfo\<close> the
  message is still the empty one, not an error.
\<close>

theorem fetch_blank_counterexample:
  "trim (url blank_state) = []
   \<and> message (getVideoInfo (NetError []) blank_state) = \<lparr>msg_type = [], msg_text = JStr []\<rparr>
   \<and> msg_type (message (getVideoInfo (NetError []) blank_state)) \<noteq> ''error''"
  by (simp add: getVideoInfo_def blank_state_def mounted_def trim_def js_space_def)

text \<open>
  Claim C4, as amended. When the browser is offline, \<^verbatim>\<open>handleDownload\<close> sends no
  request and changes nothing but the message, which becomes an error: the request for a
  URL when the trimmed input is empty (that test comes first), the offline notice
  otherwise.
\<close>

theorem offline_download_refused:
  "\<not> isOnline st \<Longrightarrow>
   handleDownload r wr now st =
     st\<lparr>message := \<lparr>msg_type = ''error'',
          msg_text = JStr (if trim (url st) = [] then ''Please enter a video URL''
                           else ''You are offline. Please connect to the internet to download.'')\<rparr>\<rparr>
   \<and> trace (handleDownload r wr now st) = trace st"
  by (simp add: handleDownload_def setMessage_def)

theorem offline_download_refused_witness:
  "\<not> isOnline (offline_state\<lparr>url := ''https://example.com/v1''\<rparr>)
   \<and> message (handleDownload (Response cat_response) Fulfilled ''2024-05-01T10:00:00.000Z''
        (offline_state\<lparr>url := ''https://example.com/v1''\<rparr>)) =
       \<lparr>msg_type = ''error'',
        msg_text = JStr ''You are offline. Please connect to the internet to download.''\<rparr>
   \<and> trace (handleDownload (Response cat_response) Fulfilled ''2024-05-01T10:00:00.000Z''
        (offline_state\<lparr>url := ''https://example.com/v1''\<rparr>)) = []"
proof -
  have off: "\<not> isOnline (offline_state\<lparr>url := ''https://example.com/v1''\<rparr>)"
    by (simp add: offline_state_def mounted_def)
  have filled: "trim (url (offline_state\<lparr>url := ''https://example.com/v1''\<rparr>)) \<noteq> []"
    by (simp add: trim_def js_space_def)
  from offline_download_refused [OF off, of "Response cat_response" Fulfilled
      "''2024-05-01T10:00:00.000Z''"] off filled
  show ?thesis
    by (simp add: offline_state_def mounted_def)
qed

text \<open>
  The claim as stated fails for the empty input: offline, the message is the request for
  a URL, not the offline notice.
\<close>

theorem offline_blank_counterexample:
  "\<not> isOnline offline_state \<and> trim (url offline_state) = []
   \<and> message (handleDownload (Response cat_response) Fulfilled ''2024-05-01T10:00:00.000Z''
        offline_state) =
       \<lparr>msg_type = ''error'', msg_text = JStr ''Please enter a video URL''\<rparr>
   \<and> msg_text (message (handleDownload (Response cat_response) Fulfilled
        ''2024-05-01T10:00:00.000Z'' offline_state)) \<noteq>
       JStr ''You are offline. Please connect to the internet to download.''"
  by (simp add: handleDownload_def setMessage_def offline_state_def mounted_def trim_def)

section \<open>What a download changes\<close>

text \<open>
  Claim C10. A download that passes the two local tests and whose response body has a
  truthy \<^verbatim>\<open>success\<close> ends with an empty \<^verbatim>\<open>url\<close> and a null \<^verbatim>\<open>videoInfo\<close>,
  however the write of the history settles. A download that fails, by a response without
  a truthy \<^verbatim>\<open>success\<close> or by a rejected request, ends in the state it started from
  except for \<^verbatim>\<open>loading\<close> (false), \<^verbatim>\<open>message\<close> (an error) and the record of the
  request that was sent. A download refused by a local test changes the message only.
\<close>

theorem download_frame:
  "(trim (url st) \<noteq> [] \<and> isOnline st \<longrightarrow>
      (truthy (member d ''success'') \<longrightarrow>
         url (handleDownload (Response d) wr now st) = []
         \<and> videoInfo (handleDownload (Response d) wr now st) = JNull)
    \<and> (\<not> truthy (member d ''success'') \<longrightarrow>
         (\<exists>tx. handleDownload (Response d) wr now st =
            st\<lparr>loading := False, message := \<lparr>msg_type = ''error'', msg_text = tx\<rparr>,
               trace := trace st @ [HttpPost (API_URL @ ''/api/download'')
                 (JObj [(''url'', JStr (trim (url st))), (''quality'', JStr (quality st))])]\<rparr>))
    \<and> (\<exists>tx. handleDownload (NetError err) wr now st =
            st\<lparr>loading := False, message := \<lparr>msg_type = ''error'', msg_text = tx\<rparr>,
               trace := trace st @ [HttpPost (API_URL @ ''/api/download'')
                 (JObj [(''url'', JStr (trim (url st))), (''quality'', JStr (quality st))])]\<rparr>))
   \<and> (trim (url st) = [] \<or> \<not> isOnline st \<longrightarrow>
        (\<exists>tx. handleDownload r wr now st =
            st\<lparr>message := \<lparr>msg_type = ''error'', msg_text = tx\<rparr>\<rparr>))"
proof (intro conjI impI)
  assume "trim (url st) \<noteq> [] \<and> isOnline st" and "truthy (member d ''success'')"
  then show "url (handleDownload (Response d) wr now st) = []"
    and "videoInfo (handleDownload (Response d) wr now st) = JNull"
    by (simp_all add: handleDownload_success_state(1,2))
next
  assume adm: "trim (url st) \<noteq> [] \<and> isOnline st" and no: "\<not> truthy (member d ''success'')"
  show "\<exists>tx. handleDownload (Response d) wr now st =
            st\<lparr>loading := False, message := \<lparr>msg_type = ''error'', msg_text = tx\<rparr>,
               trace := trace st @ [HttpPost (API_URL @ ''/api/download'')
                 (JObj [(''url'', JStr (trim (url st))), (''quality'', JStr (quality st))])]\<rparr>"
  proof (cases "nullish d")
    case True
    with adm show ?thesis
      using handleDownload_no_body [of st d wr now] by blast
  next
    case False
    with adm no show ?thesis
      using handleDownload_refused [of st d wr now] by blast
  qed
next
  assume "trim (url st) \<noteq> [] \<and> isOnline st"
  then show "\<exists>tx. handleDownload (NetError err) wr now st =
            st\<lparr>loading := False, message := \<lparr>msg_type = ''error'', msg_text = tx\<rparr>,
               trace := trace st @ [HttpPost (API_URL @ ''/api/download'')
                 (JObj [(''url'', JStr (trim (url st))), (''quality'', JStr (quality st))])]\<rparr>"
    using handleDownload_rejected [of st err wr now] by blast
next
  assume "trim (url st) = [] \<or> \<not> isOnline st"
  then show "\<exists>tx. handleDownload r wr now st =
            st\<lparr>message := \<lparr>msg_type = ''error'', msg_text = tx\<rparr>\<rparr>"
    using handleDownload_blank [of st r wr now] handleDownload_offline [of st r wr now]
    by blast
qed

theorem download_frame_witness:
  "trim (url cat_state) \<noteq> [] \<and> isOnline cat_state
   \<and> truthy (member cat_response ''success'')
   \<and> url (handleDownload (Response cat_response) Fulfilled ''2024-05-01T10:00:00.000Z''
        cat_state) = []
   \<and> videoInfo (handleDownload (Response cat_response) Fulfilled ''2024-05-01T10:00:00.000Z''
        cat_state) = JNull
   \<and> \<not> truthy (member refusal ''success'')
   \<and> url (handleDownload (Response refusal) Fulfilled ''2024-05-01T10:00:00.000Z''
        cat_state) = ''https://example.com/v1''
   \<and> videoInfo (handleDownload (Response refusal) Fulfilled ''2024-05-01T10:00:00.000Z''
        cat_state) = videoInfo cat_state
   \<and> trim (url offline_state) = []
   \<and> url (handleDownload (Response refusal) Fulfilled ''2024-05-01T10:00:00.000Z''
        offline_state) = []"
proof -
  have ok: "truthy (member cat_response ''success'')"
    by (simp add: cat_response_def)
  have no: "\<not> truthy (member refusal ''success'')"
    by (simp add: refusal_def)
  have blank: "trim (url offline_state) = []"
    by (simp add: offline_state_def mounted_def trim_def)
  then have off: "trim (url offline_state) = [] \<or> \<not> isOnline offline_state"
    by simp
  have u: "url cat_state = ''https://example.com/v1''" "url offline_state = []"
    by (simp_all add: cat_state_def offline_state_def mounted_def)
  note a = download_frame [where st = cat_state and d = cat_response and wr = Fulfilled
      and now = "''2024-05-01T10:00:00.000Z''"]
  note b = download_frame [where st = cat_state and d = refusal and wr = Fulfilled
      and now = "''2024-05-01T10:00:00.000Z''"]
  note c = download_frame [where st = offline_state and r = "Response refusal" and wr = Fulfilled
      and now = "''2024-05-01T10:00:00.000Z''"]
  from a cat_state_admitted ok
  have 1: "url (handleDownload (Response cat_response) Fulfilled ''2024-05-01T10:00:00.000Z''
        cat_state) = []"
    and 2: "videoInfo (handleDownload (Response cat_response) Fulfilled
        ''2024-05-01T10:00:00.000Z'' cat_state) = JNull"
    by blast+
  from b cat_state_admitted no
  obtain tx where "handleDownload (Response refusal) Fulfilled ''2024-05-01T10:00:00.000Z''
        cat_state =
      cat_state\<lparr>loading := False, message := \<lparr>msg_type = ''error'', msg_text = tx\<rparr>,
         trace := trace cat_state @ [HttpPost (API_URL @ ''/api/download'')
           (JObj [(''url'', JStr (trim (url cat_state))), (''quality'', JStr (quality cat_state))])]\<rparr>"
    by blast
  then have 3: "url (handleDownload (Response refusal) Fulfilled ''2024-05-01T10:00:00.000Z''
        cat_state) = ''https://example.com/v1''"
    and 4: "videoInfo (handleDownload (Response refusal) Fulfilled ''2024-05-01T10:00:00.000Z''
        cat_state) = videoInfo cat_state"
    by (simp_all add: u)
  from c off
  obtain ty where "handleDownload (Response refusal) Fulfilled ''2024-05-01T10:00:00.000Z''
        offline_state = offline_state\<lparr>message := \<lparr>msg_type = ''error'', msg_text = ty\<rparr>\<rparr>"
    by blast
  then have 5: "url (handleDownload (Response refusal) Fulfilled ''2024-05-01T10:00:00.000Z''
        offline_state) = []"
    by (simp add: u)
  from cat_state_admitted ok no blank 1 2 3 4 5 show ?thesis
    by simp
qed

section \<open>The text of a failure\<close>

lemma getVideoInfo_rejected:
  "trim (url st) \<noteq> [] \<Longrightarrow>
   message (getVideoInfo (NetError err) st) =
     \<lparr>msg_type = ''error'', msg_text = catch_text err ''Failed to connect to server''\<rparr>"
  by (simp add: getVideoInfo_def getVideoInfo_finish_def getVideoInfo_start_def Let_def
                setMessage_def perform_def)

lemma getVideoInfo_refused:
  "trim (url st) \<noteq> [] \<Longrightarrow> \<not> nullish d \<Longrightarrow> \<not> truthy (member d ''success'') \<Longrightarrow>
   message (getVideoInfo (Response d) st) =
     \<lparr>msg_type = ''error'',
      msg_text = js_or (member d ''error'') (JStr ''Failed to get video info'')\<rparr>"
  by (simp add: getVideoInfo_def getVideoInfo_finish_def getVideoInfo_start_def Let_def
                setMessage_def perform_def get_prop_def)

lemma catch_text_cases:
  "truthy (error_detail err) \<Longrightarrow> catch_text err f = error_detail err"
  "\<not> truthy (error_detail err) \<Longrightarrow> truthy (member (JObj err) ''message'') \<Longrightarrow>
     catch_text err f = member (JObj err) ''message''"
  "\<not> truthy (error_detail err) \<Longrightarrow> \<not> truthy (member (JObj err) ''message'') \<Longrightarrow>
     catch_text err f = JStr f"
  by (simp_all add: catch_text_def js_or_def del: member.simps)

text \<open>
  Claim C5, as amended. For both operations, once the request has been sent: when the
  server answers with a body whose \<^verbatim>\<open>success\<close> is falsy, the text is the body's
  \<^verbatim>\<open>error\<close> if that is truthy (a non-empty string) and the first fallback otherwise;
  when the request is rejected, the text is the \<^verbatim>\<open>detail\<close> of the response body if
  that is truthy, otherwise the \<^verbatim>\<open>message\<close> of the error if that is truthy, and the
  second fallback only when both are falsy.
\<close>

theorem failure_text_tiers:
  assumes "trim (url st) \<noteq> []" and "isOnline st"
  shows "(\<not> nullish d \<and> \<not> truthy (member d ''success'') \<longrightarrow>
            (truthy (member d ''error'') \<longrightarrow>
               message (getVideoInfo (Response d) st) =
                 \<lparr>msg_type = ''error'', msg_text = member d ''error''\<rparr>
               \<and> message (handleDownload (Response d) wr now st) =
                 \<lparr>msg_type = ''error'', msg_text = member d ''error''\<rparr>)
          \<and> (\<not> truthy (member d ''error'') \<longrightarrow>
               message (getVideoInfo (Response d) st) =
                 \<lparr>msg_type = ''error'', msg_text = JStr ''Failed to get video info''\<rparr>
               \<and> message (handleDownload (Response d) wr now st) =
                 \<lparr>msg_type = ''error'', msg_text = JStr ''Download failed''\<rparr>))
       \<and> (truthy (error_detail err) \<longrightarrow>
             message (getVideoInfo (NetError err) st) =
               \<lparr>msg_type = ''error'', msg_text = error_detail err\<rparr>
             \<and> message (handleDownload (NetError err) wr now st) =
               \<lparr>msg_type = ''error'', msg_text = error_detail err\<rparr>)
       \<and> (\<not> truthy (error_detail err) \<and> truthy (member (JObj err) ''message'') \<longrightarrow>
             message (getVideoInfo (NetError err) st) =
               \<lparr>msg_type = ''error'', msg_text = member (JObj err) ''message''\<rparr>
             \<and> message (handleDownload (NetError err) wr now st) =
               \<lparr>msg_type = ''error'', msg_text = member (JObj err) ''message''\<rparr>)
       \<and> (\<not> truthy (error_detail err) \<and> \<not> truthy (member (JObj err) ''message'') \<longrightarrow>
             message (getVideoInfo (NetError err) st) =
               \<lparr>msg_type = ''error'', msg_text = JStr ''Failed to connect to server''\<rparr>
             \<and> message (handleDownload (NetError err) wr now st) =
               \<lparr>msg_type = ''error'', msg_text = JStr ''Failed to download video''\<rparr>)"
proof -
  have info: "message (getVideoInfo (NetError err) st) =
      \<lparr>msg_type = ''error'', msg_text = catch_text err ''Failed to connect to server''\<rparr>"
    using assms(1) by (rule getVideoInfo_rejected)
  have down: "message (handleDownload (NetError err) wr now st) =
      \<lparr>msg_type = ''error'', msg_text = catch_text err ''Failed to download video''\<rparr>"
    by (simp add: handleDownload_rejected [OF assms])
  have app_info: "message (getVideoInfo (Response d) st) =
      \<lparr>msg_type = ''error'',
       msg_text = js_or (member d ''error'') (JStr ''Failed to get video info'')\<rparr>"
    if "\<not> nullish d" "\<not> truthy (member d ''success'')"
    using assms(1) that by (rule getVideoInfo_refused)
  have app_down: "message (handleDownload (Response d) wr now st) =
      \<lparr>msg_type = ''error'', msg_text = js_or (member d ''error'') (JStr ''Download failed'')\<rparr>"
    if "\<not> nullish d" "\<not> truthy (member d ''success'')"
    using that by (simp add: handleDownload_refused [OF assms that(2,1)])
  show ?thesis
    using info down app_info app_down
    by (auto simp add: catch_text_cases js_or_def simp del: member.simps)
qed

theorem failure_text_tiers_witness:
  "trim (url cat_state) \<noteq> [] \<and> isOnline cat_state
   \<and> message (getVideoInfo (Response refusal) cat_state) =
       \<lparr>msg_type = ''error'', msg_text = JStr ''Unsupported URL''\<rparr>
   \<and> message (handleDownload (Response (JObj [(''success'', JBool False)])) Fulfilled
        ''2024-05-01T10:00:00.000Z'' cat_state) =
       \<lparr>msg_type = ''error'', msg_text = JStr ''Download failed''\<rparr>
   \<and> message (getVideoInfo (NetError server_422) cat_state) =
       \<lparr>msg_type = ''error'', msg_text = JStr ''Invalid URL''\<rparr>
   \<and> message (handleDownload (NetError net_down) Fulfilled ''2024-05-01T10:00:00.000Z''
        cat_state) =
       \<lparr>msg_type = ''error'', msg_text = JStr ''Network Error''\<rparr>
   \<and> message (getVideoInfo (NetError []) cat_state) =
       \<lparr>msg_type = ''error'', msg_text = JStr ''Failed to connect to server''\<rparr>"
proof -
  note t = failure_text_tiers [OF cat_state_admitted]
  have "message (getVideoInfo (Response refusal) cat_state) =
       \<lparr>msg_type = ''error'', msg_text = JStr ''Unsupported URL''\<rparr>"
    using t [where d = refusal] by (simp add: refusal_def nullish_def)
  moreover have "message (handleDownload (Response (JObj [(''success'', JBool False)])) Fulfilled
        ''2024-05-01T10:00:00.000Z'' cat_state) =
       \<lparr>msg_type = ''error'', msg_text = JStr ''Download failed''\<rparr>"
    using t [where d = "JObj [(''success'', JBool False)]" and wr = Fulfilled
        and now = "''2024-05-01T10:00:00.000Z''"]
    by (simp add: nullish_def)
  moreover have "message (getVideoInfo (NetError server_422) cat_state) =
       \<lparr>msg_type = ''error'', msg_text = JStr ''Invalid URL''\<rparr>"
    using t [where err = server_422]
    by (simp add: server_422_def error_detail_def opt_prop_def nullish_def)
  moreover have "message (handleDownload (NetError net_down) Fulfilled
        ''2024-05-01T10:00:00.000Z'' cat_state) =
       \<lparr>msg_type = ''error'', msg_text = JStr ''Network Error''\<rparr>"
    using t [where err = net_down and wr = Fulfilled and now = "''2024-05-01T10:00:00.000Z''"]
    by (simp add: net_down_def error_detail_def opt_prop_def nullish_def)
  moreover have "message (getVideoInfo (NetError []) cat_state) =
       \<lparr>msg_type = ''error'', msg_text = JStr ''Failed to connect to server''\<rparr>"
    using t [where err = "[]"]
    by (simp add: error_detail_def opt_prop_def nullish_def)
  ultimately show ?thesis
    using cat_state_admitted by simp
qed

text \<open>
  The claim as stated fails in three places. A rejected request without \<^verbatim>\<open>detail\<close> and
  without \<^verbatim>\<open>error\<close> shows the message of the error, not the fallback: for the metadata
  fetch when there is no response at all, for the download when the server answers with
  status 500. And an \<^verbatim>\<open>error\<close> that is the empty string is replaced by the fallback.
\<close>

theorem failure_text_counterexample:
  "msg_text (message (getVideoInfo (NetError net_down) cat_state)) = JStr ''Network Error''
   \<and> msg_text (message (getVideoInfo (NetError net_down) cat_state)) \<noteq>
       JStr ''Failed to connect to server''
   \<and> msg_text (message (handleDownload (NetError server_500) Fulfilled
        ''2024-05-01T10:00:00.000Z'' cat_state)) = JStr ''Request failed with status code 500''
   \<and> msg_text (message (handleDownload (NetError server_500) Fulfilled
        ''2024-05-01T10:00:00.000Z'' cat_state)) \<noteq> JStr ''Failed to download video''
   \<and> msg_text (message (getVideoInfo
        (Response (JObj [(''success'', JBool False), (''error'', JStr [])])) cat_state)) =
       JStr ''Failed to get video info''
   \<and> msg_text (message (getVideoInfo
        (Response (JObj [(''success'', JBool False), (''error'', JStr [])])) cat_state)) \<noteq> JStr []"
  by (simp add: getVideoInfo_rejected getVideoInfo_refused handleDownload_rejected
        cat_state_admitted catch_text_def error_detail_def opt_prop_def nullish_def js_or_def
        net_down_def server_500_def)

section \<open>Failures of the store\<close>

lemma saveToHistory_rejected_state:
  "snd (saveToHistory item now (RejectedWith e) st) =
     st\<lparr>trace := trace st @ [SetItem ''downloadHistory'' (newHistory item now (downloadHistory st)),
                              ConsoleError ''Failed to save history:'' e]\<rparr>"
  by (simp add: saveToHistory_def Let_def perform_def)

lemma saveToHistory_fulfilled_state:
  "snd (saveToHistory item now Fulfilled st) =
     st\<lparr>downloadHistory := newHistory item now (downloadHistory st),
        store := Some (newHistory item now (downloadHistory st)),
        trace := trace st @ [SetItem ''downloadHistory'' (newHistory item now (downloadHistory st))]\<rparr>"
  by (simp add: saveToHistory_def Let_def perform_def)

lemma saveToHistory_returns: "fst (saveToHistory item now wr st) = Returned JUndefined"
  by (cases wr) (simp_all add: saveToHistory_def Let_def)

lemma handleDownload_success_message:
  assumes "trim (url st) \<noteq> []" and "isOnline st" and "truthy (member d ''success'')"
  shows "message (handleDownload (Response d) wr now st) =
     \<lparr>msg_type = ''success'', msg_text = JStr ''Download started! Check your downloads folder.''\<rparr>"
  by (cases wr)
     (simp_all add: handleDownload_success [OF assms] setUrl_def setMessage_def saveToHistory_def
                    Let_def perform_def)

text \<open>
  Claim C6, as amended. When the write is fulfilled, the store and the in-memory log both
  hold the new list. When it is rejected, both are as before and the only trace of the
  failure is a \<^verbatim>\<open>console.error\<close>: \<^verbatim>\<open>saveToHistory\<close> returns \<^verbatim>\<open>undefined\<close> in both
  cases and never throws, so its caller is not informed, and \<^verbatim>\<open>handleDownload\<close> reports
  the download as started either way.
\<close>

theorem append_failure_is_silent:
  "fst (saveToHistory item now wr st) = Returned JUndefined
   \<and> snd (saveToHistory item now Fulfilled st) =
       st\<lparr>downloadHistory := newHistory item now (downloadHistory st),
          store := Some (newHistory item now (downloadHistory st)),
          trace := trace st @
            [SetItem ''downloadHistory'' (newHistory item now (downloadHistory st))]\<rparr>
   \<and> snd (saveToHistory item now (RejectedWith e) st) =
       st\<lparr>trace := trace st @
            [SetItem ''downloadHistory'' (newHistory item now (downloadHistory st)),
             ConsoleError ''Failed to save history:'' e]\<rparr>
   \<and> (trim (url st) \<noteq> [] \<and> isOnline st \<and> truthy (member d ''success'') \<longrightarrow>
        message (handleDownload (Response d) wr now st) =
          \<lparr>msg_type = ''success'',
           msg_text = JStr ''Download started! Check your downloads folder.''\<rparr>)"
  by (simp add: saveToHistory_returns saveToHistory_fulfilled_state saveToHistory_rejected_state
                handleDownload_success_message del: member.simps)

theorem append_failure_is_silent_witness:
  "trim (url cat_state) \<noteq> [] \<and> isOnline cat_state \<and> truthy (member cat_response ''success'')
   \<and> message (handleDownload (Response cat_response) (RejectedWith (JStr ''QuotaExceededError''))
        ''2024-05-01T10:00:00.000Z'' cat_state) =
       \<lparr>msg_type = ''success'',
        msg_text = JStr ''Download started! Check your downloads folder.''\<rparr>
   \<and> downloadHistory (snd (saveToHistory cat_item ''2024-05-01T10:00:00.000Z''
        (RejectedWith (JStr ''QuotaExceededError'')) cat_state)) = []"
proof -
  have ok: "truthy (member cat_response ''success'')"
    by (simp add: cat_response_def)
  note t = append_failure_is_silent [where st = cat_state and d = cat_response
      and wr = "RejectedWith (JStr ''QuotaExceededError'')" and now = "''2024-05-01T10:00:00.000Z''"
      and e = "JStr ''QuotaExceededError''" and item = cat_item]
  from t cat_state_admitted ok
  have "message (handleDownload (Response cat_response) (RejectedWith (JStr ''QuotaExceededError''))
        ''2024-05-01T10:00:00.000Z'' cat_state) =
       \<lparr>msg_type = ''success'',
        msg_text = JStr ''Download started! Check your downloads folder.''\<rparr>"
    by blast
  moreover from t
  have "downloadHistory (snd (saveToHistory cat_item ''2024-05-01T10:00:00.000Z''
        (RejectedWith (JStr ''QuotaExceededError'')) cat_state)) = downloadHistory cat_state"
    by simp
  ultimately show ?thesis
    using cat_state_admitted ok by (simp add: cat_state_def mounted_def)
qed

text \<open>
  The claim as stated fails when the write is rejected: \<^verbatim>\<open>saveToHistory\<close> hands its
  caller the same result as after a fulfilled write, and the download ends with the
  success message while the history, in memory and in the store, has no entry.
\<close>

theorem append_failure_counterexample:
  "fst (saveToHistory cat_item ''2024-05-01T10:00:00.000Z''
          (RejectedWith (JStr ''QuotaExceededError'')) cat_state) =
     fst (saveToHistory cat_item ''2024-05-01T10:00:00.000Z'' Fulfilled cat_state)
   \<and> message (handleDownload (Response cat_response) (RejectedWith (JStr ''QuotaExceededError''))
        ''2024-05-01T10:00:00.000Z'' cat_state) =
       \<lparr>msg_type = ''success'',
        msg_text = JStr ''Download started! Check your downloads folder.''\<rparr>
   \<and> downloadHistory (handleDownload (Response cat_response)
        (RejectedWith (JStr ''QuotaExceededError'')) ''2024-05-01T10:00:00.000Z'' cat_state) = []
   \<and> store (handleDownload (Response cat_response)
        (RejectedWith (JStr ''QuotaExceededError'')) ''2024-05-01T10:00:00.000Z'' cat_state) = None"
proof -
  have ok: "truthy (member cat_response ''success'')"
    by (simp add: cat_response_def)
  note run = handleDownload_success [OF cat_state_admitted ok,
      of "RejectedWith (JStr ''QuotaExceededError'')" "''2024-05-01T10:00:00.000Z''"]
  have "downloadHistory (handleDownload (Response cat_response)
        (RejectedWith (JStr ''QuotaExceededError'')) ''2024-05-01T10:00:00.000Z'' cat_state) = []"
    and "store (handleDownload (Response cat_response)
        (RejectedWith (JStr ''QuotaExceededError'')) ''2024-05-01T10:00:00.000Z'' cat_state) = None"
    unfolding run
    by (simp_all add: saveToHistory_def Let_def perform_def setUrl_def setMessage_def
          cat_state_def mounted_def)
  then show ?thesis
    by (simp add: saveToHistory_returns handleDownload_success_message [OF cat_state_admitted ok])
qed

text \<open>
  Claim C7, as amended. \<^verbatim>\<open>clearHistory\<close> calls \<^verbatim>\<open>removeItem\<close> exactly once and never
  throws. When the delete is fulfilled, the stored record is gone, the in-memory log is
  empty and the message says so. When the delete is rejected, the error is logged and
  nothing else changes: the in-memory log keeps its entries.
\<close>

theorem clear_history_outcomes:
  "fst (clearHistory wr st) = Returned JUndefined
   \<and> snd (clearHistory Fulfilled st) =
       st\<lparr>message := \<lparr>msg_type = ''success'', msg_text = JStr ''History cleared''\<rparr>,
          downloadHistory := [], store := None,
          trace := trace st @ [RemoveItem ''downloadHistory'']\<rparr>
   \<and> snd (clearHistory (RejectedWith e) st) =
       st\<lparr>trace := trace st @ [RemoveItem ''downloadHistory'',
                              ConsoleError ''Failed to clear history:'' e]\<rparr>"
  by (cases wr) (simp_all add: clearHistory_def Let_def perform_def setMessage_def)

theorem clear_history_outcomes_witness:
  "downloadHistory (snd (clearHistory Fulfilled one_entry)) = []
   \<and> store (snd (clearHistory Fulfilled one_entry)) = None
   \<and> trace (snd (clearHistory Fulfilled one_entry)) = [RemoveItem ''downloadHistory'']
   \<and> trace (snd (clearHistory (RejectedWith (JStr ''InvalidStateError'')) one_entry)) =
       [RemoveItem ''downloadHistory'',
        ConsoleError ''Failed to clear history:'' (JStr ''InvalidStateError'')]"
  using clear_history_outcomes [of Fulfilled one_entry "JStr ''InvalidStateError''"]
  by (simp add: one_entry_def mounted_def)

text \<open>
  The claim as stated fails when the delete is rejected: the in-memory log still holds
  its entry.
\<close>

theorem clear_failure_counterexample:
  "downloadHistory (snd (clearHistory (RejectedWith (JStr ''InvalidStateError'')) one_entry)) =
     [[(''url'', JStr ''https://example.com/v1''), (''title'', JStr ''Cat video''),
       (''quality'', JStr ''high''), (''downloadedAt'', JStr ''2024-05-01T10:00:00.000Z'')]]
   \<and> downloadHistory (snd (clearHistory (RejectedWith (JStr ''InvalidStateError'')) one_entry))
       \<noteq> []"
  by (simp add: clearHistory_def Let_def perform_def one_entry_def mounted_def stamp_def
                cat_item_def)

section \<open>The debounced preview\<close>

lemma trace_setUrl: "trace (setUrl w s) = trace s"
  by (simp add: setUrl_def)

lemma timer_setUrl: "w \<noteq> url s \<Longrightarrow> timer (setUrl w s) = Some (500, w)"
  by (simp add: setUrl_def)

lemma url_getVideoInfo_start: "url (getVideoInfo_start u s) = url s"
  by (simp add: getVideoInfo_start_def perform_def setMessage_def)

lemma trace_getVideoInfo_start:
  "trim u \<noteq> [] \<Longrightarrow>
   trace (getVideoInfo_start u s) =
     trace s @ [HttpPost (API_URL @ ''/api/video-info'') (JObj [(''url'', JStr (trim u))])]"
  by (simp add: getVideoInfo_start_def perform_def setMessage_def)

lemma quiet_step:
  assumes "w \<noteq> url s" and "g < 500"
  shows "trace (elapse g (setUrl w s)) = trace s" and "url (elapse g (setUrl w s)) = w"
  using assms by (simp_all add: elapse_def setUrl_def)

lemma firing_step:
  assumes "w \<noteq> url s" and "500 \<le> d"
  shows "trace (elapse d (setUrl w s)) =
     trace s @ (if trim w \<noteq> [] \<and> js_includes w ''http''
                then [HttpPost (API_URL @ ''/api/video-info'') (JObj [(''url'', JStr (trim w))])]
                else [])"
  using assms by (simp add: elapse_def setUrl_def trace_getVideoInfo_start)

lemma elapse_fires_only_when_due:
  assumes "trace (elapse g s) \<noteq> trace s"
  shows "\<exists>left u. timer s = Some (left, u) \<and> left \<le> g \<and> trim u \<noteq> [] \<and> js_includes u ''http''
           \<and> trace (elapse g s) =
               trace s @ [HttpPost (API_URL @ ''/api/video-info'') (JObj [(''url'', JStr (trim u))])]"
proof (cases "timer s")
  case None
  with assms show ?thesis
    by (simp add: elapse_def)
next
  case (Some p)
  obtain left u where p: "p = (left, u)"
    by (cases p) auto
  from assms Some p show ?thesis
    by (auto simp add: elapse_def trace_getVideoInfo_start split: if_splits)
qed

lemma typing_append: "typing (xs @ ys) st = typing ys (typing xs st)"
  by (induction xs arbitrary: st) auto

lemma changes_snoc: "changes u (vs @ [v]) = (changes u vs \<and> v \<noteq> last (u # vs))"
  by (induction vs arbitrary: u) auto

lemma typing_quiet:
  assumes "changes (url st) (map fst xs)" and "\<forall>(w, g) \<in> set xs. g < 500"
  shows "trace (typing xs st) = trace st \<and> url (typing xs st) = last (url st # map fst xs)"
  using assms
proof (induction xs arbitrary: st)
  case Nil
  then show ?case by simp
next
  case (Cons x xs)
  obtain w g where x: "x = (w, g)"
    by (cases x) auto
  from Cons.prems x have w: "w \<noteq> url st" and g: "g < 500"
    by auto
  let ?s = "elapse g (setUrl w st)"
  have s: "trace ?s = trace st" "url ?s = w"
    using quiet_step [OF w g] by simp_all
  from Cons.prems x s have "changes (url ?s) (map fst xs)" and "\<forall>(w, g) \<in> set xs. g < 500"
    by auto
  then have "trace (typing xs ?s) = trace ?s \<and> url (typing xs ?s) = last (url ?s # map fst xs)"
    by (rule Cons.IH)
  with s x show ?case
    by simp
qed

text \<open>
  Claim C8. Let the input change any number of times with less than 500 ms between one
  change and the next, and then stay as it is for 500 ms or more. Over the whole run
  \<^verbatim>\<open>getVideoInfo\<close> sends exactly one request, for the trimmed last value, when that
  value is not blank and contains \<^verbatim>\<open>http\<close>, and none otherwise. In general a request
  is sent in a lapse of time only by a timer that is due, for a value that is not blank
  and contains \<^verbatim>\<open>http\<close>; and a change of the input sends nothing and sets the timer to
  500 ms.
\<close>

theorem debounce_single_fetch:
  assumes "changes (url st) (map fst xs @ [v])"
    and "\<forall>(w, g) \<in> set xs. g < 500"
    and "500 \<le> d"
  shows "trace (typing (xs @ [(v, d)]) st) =
           trace st @ (if trim v \<noteq> [] \<and> js_includes v ''http''
                       then [HttpPost (API_URL @ ''/api/video-info'')
                               (JObj [(''url'', JStr (trim v))])]
                       else [])
       \<and> (\<forall>g s. trace (elapse g s) \<noteq> trace s \<longrightarrow>
             (\<exists>left u. timer s = Some (left, u) \<and> left \<le> g
                \<and> trim u \<noteq> [] \<and> js_includes u ''http''
                \<and> trace (elapse g s) =
                    trace s @ [HttpPost (API_URL @ ''/api/video-info'')
                                 (JObj [(''url'', JStr (trim u))])]))
       \<and> (\<forall>w s. trace (setUrl w s) = trace s
             \<and> (w \<noteq> url s \<longrightarrow> timer (setUrl w s) = Some (500, w)))"
proof -
  from assms(1) have quiet: "changes (url st) (map fst xs)"
    and last: "v \<noteq> last (url st # map fst xs)"
    by (simp_all add: changes_snoc)
  let ?s = "typing xs st"
  from typing_quiet [OF quiet assms(2)]
  have s: "trace ?s = trace st" "url ?s = last (url st # map fst xs)"
    by simp_all
  from last s have "v \<noteq> url ?s"
    by simp
  then have "trace (elapse d (setUrl v ?s)) =
     trace ?s @ (if trim v \<noteq> [] \<and> js_includes v ''http''
                 then [HttpPost (API_URL @ ''/api/video-info'') (JObj [(''url'', JStr (trim v))])]
                 else [])"
    using assms(3) by (rule firing_step)
  then have run: "trace (typing (xs @ [(v, d)]) st) =
           trace st @ (if trim v \<noteq> [] \<and> js_includes v ''http''
                       then [HttpPost (API_URL @ ''/api/video-info'')
                               (JObj [(''url'', JStr (trim v))])]
                       else [])"
    by (simp add: typing_append s)
  have due: "\<forall>g s. trace (elapse g s) \<noteq> trace s \<longrightarrow>
             (\<exists>left u. timer s = Some (left, u) \<and> left \<le> g
                \<and> trim u \<noteq> [] \<and> js_includes u ''http''
                \<and> trace (elapse g s) =
                    trace s @ [HttpPost (API_URL @ ''/api/video-info'')
                                 (JObj [(''url'', JStr (trim u))])])"
    by (intro allI impI) (rule elapse_fires_only_when_due)
  have change: "\<forall>w s. trace (setUrl w s) = trace s
             \<and> (w \<noteq> url s \<longrightarrow> timer (setUrl w s) = Some (500, w))"
    by (simp add: trace_setUrl timer_setUrl)
  show ?thesis
    by (rule conjI [OF run conjI [OF due change]])
qed

theorem debounce_single_fetch_witness:
  "changes (url (mounted True [])) (map fst [(''h'', 100::nat), (''http://ex'', 120)]
      @ [''http://example.com/v''])
   \<and> (100::nat) < 500 \<and> (120::nat) < 500
   \<and> (500::nat) \<le> 500
   \<and> trace (typing [(''h'', 100), (''http://ex'', 120), (''http://example.com/v'', 500)]
        (mounted True [])) =
       [HttpPost ''http://localhost:8000/api/video-info''
          (JObj [(''url'', JStr ''http://example.com/v'')])]"
proof -
  have a: "changes (url (mounted True [])) (map fst [(''h'', 100::nat), (''http://ex'', 120)]
      @ [''http://example.com/v''])"
    by (simp add: mounted_def)
  have b: "\<forall>(w, g) \<in> set [(''h'', 100), (''http://ex'', 120::nat)]. g < 500"
    by simp
  have c: "(500::nat) \<le> 500"
    by simp
  have "trace (typing ([(''h'', 100), (''http://ex'', 120)] @ [(''http://example.com/v'', 500)])
        (mounted True [])) =
      trace (mounted True []) @
        (if trim ''http://example.com/v'' \<noteq> [] \<and> js_includes ''http://example.com/v'' ''http''
         then [HttpPost (API_URL @ ''/api/video-info'')
                 (JObj [(''url'', JStr (trim ''http://example.com/v''))])]
         else [])"
    using debounce_single_fetch [OF a b c] by (rule conjunct1)
  also have "\<dots> = [HttpPost ''http://localhost:8000/api/video-info''
          (JObj [(''url'', JStr ''http://example.com/v'')])]"
    by (simp add: mounted_def trim_def js_space_def API_URL_def)
  finally have d: "trace (typing [(''h'', 100), (''http://ex'', 120), (''http://example.com/v'', 500)]
        (mounted True [])) =
       [HttpPost ''http://localhost:8000/api/video-info''
          (JObj [(''url'', JStr ''http://example.com/v'')])]"
    by simp
  have e: "(100::nat) < 500" "(120::nat) < 500"
    by simp_all
  show ?thesis
    by (rule conjI [OF a conjI [OF e(1) conjI [OF e(2) conjI [OF c d]]]])
qed

section \<open>Responses that arrive late\<close>

lemma getVideoInfo_finish_cases:
  "truthy (member d ''success'') \<Longrightarrow>
     getVideoInfo_finish (Response d) st = st\<lparr>videoInfo := member d ''data'', loadingInfo := False\<rparr>"
  "\<not> nullish d \<Longrightarrow> \<not> truthy (member d ''success'') \<Longrightarrow>
     getVideoInfo_finish (Response d) st =
       st\<lparr>message := \<lparr>msg_type = ''error'',
             msg_text = js_or (member d ''error'') (JStr ''Failed to get video info'')\<rparr>,
          loadingInfo := False\<rparr>"
  "getVideoInfo_finish (NetError err) st =
       st\<lparr>message := \<lparr>msg_type = ''error'',
             msg_text = catch_text err ''Failed to connect to server''\<rparr>,
          loadingInfo := False\<rparr>"
  using truthy_member_not_nullish [of d "''success''"]
  by (simp_all add: getVideoInfo_finish_def Let_def get_prop_def setMessage_def
               del: member.simps)

text \<open>
  Claim C9, as amended. There is no suppression of stale results. When a metadata fetch
  completes, its result is written to the state as it is at that moment, whatever has
  been triggered or completed since the fetch was started: a response with a truthy
  \<^verbatim>\<open>success\<close> overwrites \<^verbatim>\<open>videoInfo\<close>, any other outcome overwrites \<^verbatim>\<open>message\<close>,
  and \<^verbatim>\<open>loadingInfo\<close> is cleared. A newer change of the input only replaces the debounce
  timer.
\<close>

theorem fetch_results_last_write_wins:
  "(truthy (member d ''success'') \<longrightarrow>
      getVideoInfo_finish (Response d) st =
        st\<lparr>videoInfo := member d ''data'', loadingInfo := False\<rparr>)
   \<and> (\<not> nullish d \<and> \<not> truthy (member d ''success'') \<longrightarrow>
      getVideoInfo_finish (Response d) st =
        st\<lparr>message := \<lparr>msg_type = ''error'',
              msg_text = js_or (member d ''error'') (JStr ''Failed to get video info'')\<rparr>,
           loadingInfo := False\<rparr>)
   \<and> getVideoInfo_finish (NetError err) st =
        st\<lparr>message := \<lparr>msg_type = ''error'',
              msg_text = catch_text err ''Failed to connect to server''\<rparr>,
           loadingInfo := False\<rparr>
   \<and> (w \<noteq> url st \<longrightarrow> setUrl w st = st\<lparr>url := w, timer := Some (500, w)\<rparr>)"
  by (simp add: getVideoInfo_finish_cases setUrl_def del: member.simps)

theorem fetch_results_last_write_wins_witness:
  "truthy (member first_info ''success'')
   \<and> videoInfo (getVideoInfo_finish (Response first_info)
        (getVideoInfo_finish (Response second_info) two_fetches)) =
       JObj [(''title'', JStr ''First video'')]
   \<and> \<not> nullish refusal \<and> \<not> truthy (member refusal ''success'')
   \<and> msg_text (message (getVideoInfo_finish (Response refusal) two_fetches)) =
       JStr ''Unsupported URL''
   \<and> ''http://a.example/3'' \<noteq> url two_fetches
   \<and> timer (setUrl ''http://a.example/3'' two_fetches) = Some (500, ''http://a.example/3'')"
proof -
  have ok: "truthy (member first_info ''success'')"
    by (simp add: first_info_def)
  have no: "\<not> nullish refusal" "\<not> truthy (member refusal ''success'')"
    by (simp_all add: refusal_def nullish_def)
  have u: "url two_fetches = ''http://a.example/2''"
    by (simp add: two_fetches_def mounted_def setUrl_def elapse_def url_getVideoInfo_start)
  then have new: "''http://a.example/3'' \<noteq> url two_fetches"
    by simp
  from fetch_results_last_write_wins
    [where d = first_info and st = "getVideoInfo_finish (Response second_info) two_fetches"] ok
  have 1: "videoInfo (getVideoInfo_finish (Response first_info)
        (getVideoInfo_finish (Response second_info) two_fetches)) =
       JObj [(''title'', JStr ''First video'')]"
    by (simp add: first_info_def)
  from fetch_results_last_write_wins [where d = refusal and st = two_fetches] no
  have 2: "msg_text (message (getVideoInfo_finish (Response refusal) two_fetches)) =
       JStr ''Unsupported URL''"
    by (simp add: refusal_def js_or_def)
  from fetch_results_last_write_wins [where w = "''http://a.example/3''" and st = two_fetches] new
  have 3: "timer (setUrl ''http://a.example/3'' two_fetches) = Some (500, ''http://a.example/3'')"
    by simp
  show ?thesis
    by (intro conjI) (fact ok 1 no new 2 3)+
qed

text \<open>
  The claim as stated fails when the responses arrive in the other order. Both requests
  have been sent and the input holds the second URL; the second response arrives and is
  shown; then the first response arrives and replaces it.
\<close>

theorem stale_result_counterexample:
  "trace two_fetches =
     [HttpPost ''http://localhost:8000/api/video-info'' (JObj [(''url'', JStr ''http://a.example/1'')]),
      HttpPost ''http://localhost:8000/api/video-info'' (JObj [(''url'', JStr ''http://a.example/2'')])]
   \<and> url two_fetches = ''http://a.example/2''
   \<and> videoInfo (getVideoInfo_finish (Response second_info) two_fetches) =
       JObj [(''title'', JStr ''Second video'')]
   \<and> videoInfo (getVideoInfo_finish (Response first_info)
        (getVideoInfo_finish (Response second_info) two_fetches)) =
       JObj [(''title'', JStr ''First video'')]
   \<and> url (getVideoInfo_finish (Response first_info)
        (getVideoInfo_finish (Response second_info) two_fetches)) = ''http://a.example/2''"
proof -
  have run: "two_fetches =
    (mounted True [])
      \<lparr>url := ''http://a.example/2'', loadingInfo := True, timer := None,
       trace := [HttpPost ''http://localhost:8000/api/video-info''
                   (JObj [(''url'', JStr ''http://a.example/1'')]),
                 HttpPost ''http://localhost:8000/api/video-info''
                   (JObj [(''url'', JStr ''http://a.example/2'')])]\<rparr>"
    by (simp add: two_fetches_def mounted_def setUrl_def elapse_def getVideoInfo_start_def
          perform_def setMessage_def trim_def js_space_def API_URL_def)
  have ok: "truthy (member first_info ''success'')" "truthy (member second_info ''success'')"
    by (simp_all add: first_info_def second_info_def)
  show ?thesis
    by (simp add: getVideoInfo_finish_cases(1) ok del: member.simps)
       (simp add: run first_info_def second_info_def)
qed

end
